theory Spec2Isabelle
  imports Main
begin

section \<open>Values exchanged with the JavaScript runtime\<close>

text \<open>
  \<^verbatim>\<open>JSON.parse\<close> returns an arbitrary JSON value, not necessarily an object: the type
  annotation \<^verbatim>\<open>let msg: IncomingMessage\<close> of \<^verbatim>\<open>receiveMessage\<close> is erased at run time.
  Numbers play no role in the session layer and are kept as integers. An object is the
  list of its own properties. A JavaScript expression that may be \<^verbatim>\<open>undefined\<close> is a
  \<open>json option\<close>, with \<open>None\<close> for \<^verbatim>\<open>undefined\<close>.
\<close>

datatype json =
    JNull
  | JBool bool
  | JNum int
  | JStr string
  | JArr "json list"
  | JObj "(string \<times> json) list"

text \<open>
  What a \<^verbatim>\<open>throw\<close> (or a rejected promise) carries. \<open>BaseError\<close> and
  \<open>UnknownCommandError\<close> are the classes imported from \<^verbatim>\<open>./error\<close>; \<open>ZWaveError\<close> is the
  error class of the device-control library, with its code and message; \<open>Error\<close> is a
  plain \<^verbatim>\<open>new Error(message)\<close>; \<open>TypeError\<close> is what the runtime raises on a property
  access on \<^verbatim>\<open>null\<close>/\<^verbatim>\<open>undefined\<close> or on a call of a non-function.
\<close>

datatype error =
    BaseError string
  | UnknownCommandError string
  | ZWaveError int string
  | Error string
  | TypeError

text \<open>
  Modelled from the spec: the enum \<^verbatim>\<open>ErrorCode\<close> of \<^verbatim>\<open>./error\<close>, which is not among the
  sources. The wire strings are the names the specification gives to the codes.
\<close>

definition unknownCommand :: string where
  "unknownCommand = ''unknownCommand''"

definition unknownError :: string where
  "unknownError = ''unknownError''"

text \<open>
  Modelled from the spec: the classes \<^verbatim>\<open>BaseError\<close> and \<^verbatim>\<open>UnknownCommandError\<close> of
  \<^verbatim>\<open>./error\<close>. A \<open>BaseError\<close> carries its \<^verbatim>\<open>errorCode\<close>; \<open>UnknownCommandError\<close> is the
  classified error whose code is \<open>unknownCommand\<close> and which carries the command string.
  \<open>ZWaveError\<close> belongs to another package and plain errors are not classified.
\<close>

fun instanceof_BaseError :: "error \<Rightarrow> bool" where
  "instanceof_BaseError (BaseError _) = True"
| "instanceof_BaseError (UnknownCommandError _) = True"
| "instanceof_BaseError _ = False"

fun errorCode :: "error \<Rightarrow> string" where
  "errorCode (BaseError code) = code"
| "errorCode (UnknownCommandError _) = unknownCommand"
| "errorCode _ = []"

text \<open>
  Property access \<^verbatim>\<open>msg.key\<close>, used for the keys \<^verbatim>\<open>command\<close> and \<^verbatim>\<open>messageId\<close> only
  (no built-in prototype defines either): on \<^verbatim>\<open>null\<close> it throws, on an object it reads
  the own property, on every other value it is \<^verbatim>\<open>undefined\<close>.
\<close>

fun property :: "json \<Rightarrow> string \<Rightarrow> error + json option" where
  "property JNull key = Inl TypeError"
| "property (JObj fields) key = Inr (map_of fields key)"
| "property _ key = Inr None"

text \<open>\<^verbatim>\<open>String.prototype.split\<close> with a one-character separator.\<close>

fun js_split :: "char \<Rightarrow> string \<Rightarrow> string list" where
  "js_split sep [] = [[]]"
| "js_split sep (c # cs) =
     (if c = sep then [] # js_split sep cs
      else (case js_split sep cs of
              [] \<Rightarrow> [[c]]
            | w # ws \<Rightarrow> (c # w) # ws))"

text \<open>
  \<^verbatim>\<open>msg.command.split(".")\<close>: only a string has a callable \<^verbatim>\<open>split\<close>; on \<^verbatim>\<open>undefined\<close>
  and \<^verbatim>\<open>null\<close> the property access throws, on every other JSON value \<^verbatim>\<open>split\<close> is not
  a function.
\<close>

fun command_split :: "json option \<Rightarrow> error + string list" where
  "command_split (Some (JStr s)) = Inr (js_split (CHR ''.'') s)"
| "command_split _ = Inl TypeError"

text \<open>
  \<^verbatim>\<open>JSON.stringify\<close> of an object literal: a property whose value is \<^verbatim>\<open>undefined\<close> is
  left out. A frame is kept as the JSON value it serialises.
\<close>

definition JSON_stringify :: "(string \<times> json option) list \<Rightarrow> json" where
  "JSON_stringify fields =
     JObj (List.map_filter (\<lambda>(k, v). map_option (Pair k) v) fields)"

fun envelope_fields :: "json \<Rightarrow> (string \<times> json) list" where
  "envelope_fields (JObj fields) = fields"
| "envelope_fields _ = []"

section \<open>The transport\<close>

text \<open>
  The socket of the \<^verbatim>\<open>ws\<close> package, as far as the server uses it: its ready state,
  the frames handed to \<^verbatim>\<open>send\<close>, and the numbers of \<^verbatim>\<open>ping\<close> and \<^verbatim>\<open>close\<close> calls.
  \<^verbatim>\<open>close()\<close> takes a socket out of the \<open>OPEN\<close> state at once.
\<close>

datatype ReadyState = CONNECTING | OPEN | CLOSING | CLOSED

record WebSocket =
  readyState :: ReadyState
  sent :: "json list"
  pings :: nat
  closes :: nat

definition ws_send :: "json \<Rightarrow> WebSocket \<Rightarrow> WebSocket" where
  "ws_send frame s = s\<lparr>sent := sent s @ [frame]\<rparr>"

definition ws_ping :: "WebSocket \<Rightarrow> WebSocket" where
  "ws_ping s = s\<lparr>pings := pings s + 1\<rparr>"

definition ws_close :: "WebSocket \<Rightarrow> WebSocket" where
  "ws_close s =
     s\<lparr>closes := closes s + 1,
       readyState := (if readyState s = CLOSED then CLOSED else CLOSING)\<rparr>"

section \<open>The external collaborators\<close>

text \<open>
  Everything \<^verbatim>\<open>server.ts\<close> imports and calls: \<^verbatim>\<open>JSON.parse\<close> (\<open>None\<close> when it throws),
  \<^verbatim>\<open>dumpState(driver)\<close>, the two handler groups (\<open>Inl\<close> when the promise is rejected or
  the call throws, \<open>Inr\<close> with the payload when it is fulfilled; a handler's promise is
  taken to settle), the constant \<^verbatim>\<open>version\<close>, \<^verbatim>\<open>driver.controller.homeId\<close>, and what a
  call of a member of \<^verbatim>\<open>Object.prototype\<close> on the handler table does.
\<close>

record env =
  JSON_parse :: "string \<Rightarrow> json option"
  dumpState :: json
  ControllerMessageHandler_handle :: "json \<Rightarrow> error + json option"
  NodeMessageHandler_handle :: "json \<Rightarrow> error + json option"
  Object_prototype_call :: "string \<Rightarrow> json \<Rightarrow> error + json option"
  version :: string
  homeId :: "json option"

section \<open>Client: one session\<close>

record Client =
  socket :: WebSocket
  receiveEvents :: bool
  outstandingPing :: bool

definition new_Client :: "WebSocket \<Rightarrow> Client" where
  "new_Client s = \<lparr>socket = s, receiveEvents = False, outstandingPing = False\<rparr>"

definition isConnected :: "Client \<Rightarrow> bool" where
  "isConnected c = (readyState (socket c) = OPEN)"

definition sendData :: "(string \<times> json option) list \<Rightarrow> Client \<Rightarrow> Client" where
  "sendData data c = c\<lparr>socket := ws_send (JSON_stringify data) (socket c)\<rparr>"

definition sendVersion :: "env \<Rightarrow> Client \<Rightarrow> Client" where
  "sendVersion e c =
     sendData
       [(''type'', Some (JStr ''version'')),
        (''driverVersion'', Some (JStr ''TBD'')),
        (''serverVersion'', Some (JStr (version e))),
        (''homeId'', homeId e)] c"

definition sendResultSuccess :: "json option \<Rightarrow> json option \<Rightarrow> Client \<Rightarrow> Client" where
  "sendResultSuccess messageId result c =
     sendData
       [(''type'', Some (JStr ''result'')),
        (''success'', Some (JBool True)),
        (''messageId'', messageId),
        (''result'', result)] c"

definition sendResultError :: "json option \<Rightarrow> string \<Rightarrow> Client \<Rightarrow> Client" where
  "sendResultError messageId code c =
     sendData
       [(''type'', Some (JStr ''result'')),
        (''success'', Some (JBool False)),
        (''messageId'', messageId),
        (''errorCode'', Some (JStr code))] c"

definition sendEvent :: "json \<Rightarrow> Client \<Rightarrow> Client" where
  "sendEvent event c =
     sendData
       [(''type'', Some (JStr ''event'')),
        (''event'', Some event)] c"

definition disconnect :: "Client \<Rightarrow> Client" where
  "disconnect c = c\<lparr>socket := ws_close (socket c)\<rparr>"

definition checkAlive :: "Client \<Rightarrow> Client" where
  "checkAlive c =
     (if outstandingPing c then disconnect c
      else c\<lparr>outstandingPing := True, socket := ws_ping (socket c)\<rparr>)"

subsection \<open>The handler table\<close>

text \<open>
  Modelled from the spec: the enum \<^verbatim>\<open>Instance\<close> of \<^verbatim>\<open>./instance\<close>, whose members are
  the group names \<^verbatim>\<open>controller\<close>, \<^verbatim>\<open>driver\<close> and \<^verbatim>\<open>node\<close>.
\<close>

datatype Instance = controller | driver | node

definition Instance_of :: "string \<Rightarrow> Instance option" where
  "Instance_of s =
     (if s = ''controller'' then Some controller
      else if s = ''driver'' then Some driver
      else if s = ''node'' then Some node
      else None)"

text \<open>
  \<^verbatim>\<open>instanceHandlers\<close> is an object literal, so \<^verbatim>\<open>this.instanceHandlers[instance]\<close>
  finds, besides the three own properties, the properties every object inherits from
  \<^verbatim>\<open>Object.prototype\<close>. All of them are truthy.
\<close>

definition Object_prototype_keys :: "string list" where
  "Object_prototype_keys =
     [''constructor'', ''__defineGetter__'', ''__defineSetter__'', ''hasOwnProperty'',
      ''__lookupGetter__'', ''__lookupSetter__'', ''isPrototypeOf'',
      ''propertyIsEnumerable'', ''toString'', ''valueOf'', ''__proto__'',
      ''toLocaleString'']"

datatype slot = Handler Instance | Inherited string | Undefined

definition instanceHandlers :: "string \<Rightarrow> slot" where
  "instanceHandlers key =
     (case Instance_of key of
        Some i \<Rightarrow> Handler i
      | None \<Rightarrow> if key \<in> set Object_prototype_keys then Inherited key else Undefined)"

fun call_handler :: "env \<Rightarrow> slot \<Rightarrow> json \<Rightarrow> error + json option" where
  "call_handler e (Handler controller) msg = ControllerMessageHandler_handle e msg"
| "call_handler e (Handler driver) msg = Inl (Error ''Driver handler not implemented.'')"
| "call_handler e (Handler node) msg = NodeMessageHandler_handle e msg"
| "call_handler e (Inherited key) msg = Object_prototype_call e key msg"
| "call_handler e Undefined msg = Inl TypeError"

subsection \<open>receiveMessage\<close>

text \<open>
  The second \<^verbatim>\<open>try\<close> block. It either completes, with the client it leaves, or throws;
  nothing it does before a throw changes the client.
\<close>

definition try_dispatch :: "env \<Rightarrow> json \<Rightarrow> Client \<Rightarrow> error + Client" where
  "try_dispatch e msg c =
     (case property msg ''command'' of
        Inl err \<Rightarrow> Inl err
      | Inr command \<Rightarrow>
          if command = Some (JStr ''start_listening'') then
            (case property msg ''messageId'' of
               Inl err \<Rightarrow> Inl err
             | Inr messageId \<Rightarrow>
                 Inr ((sendResultSuccess messageId
                         (Some (JObj [(''state'', dumpState e)])) c)
                        \<lparr>receiveEvents := True\<rparr>))
          else
            (case command_split command of
               Inl err \<Rightarrow> Inl err
             | Inr parts \<Rightarrow>
                 (case instanceHandlers (hd parts) of
                    Undefined \<Rightarrow>
                      (case command of
                         Some (JStr s) \<Rightarrow> Inl (UnknownCommandError s)
                       | _ \<Rightarrow> Inl TypeError)
                  | h \<Rightarrow>
                      (case property msg ''messageId'' of
                         Inl err \<Rightarrow> Inl err
                       | Inr messageId \<Rightarrow>
                           (case call_handler e h msg of
                              Inl err \<Rightarrow> Inl err
                            | Inr result \<Rightarrow>
                                Inr (sendResultSuccess messageId result c))))))"

text \<open>
  What one call of \<^verbatim>\<open>receiveMessage\<close> leaves: the client, the \<^verbatim>\<open>console.error\<close> calls,
  and the error of the returned promise when it is rejected.
\<close>

record outcome =
  after :: Client
  console :: "(string \<times> error) list"
  rejected :: "error option"

definition catch_dispatch :: "json \<Rightarrow> error \<Rightarrow> Client \<Rightarrow> outcome" where
  "catch_dispatch msg err c =
     (if instanceof_BaseError err then
        (case property msg ''messageId'' of
           Inl err' \<Rightarrow>
             \<lparr>after = c, console = [(''Message error'', err)], rejected = Some err'\<rparr>
         | Inr messageId \<Rightarrow>
             \<lparr>after = sendResultError messageId (errorCode err) c,
              console = [(''Message error'', err)], rejected = None\<rparr>)
      else
        (case property msg ''messageId'' of
           Inl err' \<Rightarrow>
             \<lparr>after = c, console = [(''Unexpected error'', err)], rejected = Some err'\<rparr>
         | Inr messageId \<Rightarrow>
             \<lparr>after = sendResultError messageId unknownError c,
              console = [(''Unexpected error'', err)], rejected = None\<rparr>))"

definition receiveMessage :: "env \<Rightarrow> string \<Rightarrow> Client \<Rightarrow> outcome" where
  "receiveMessage e data c =
     (case JSON_parse e data of
        None \<Rightarrow>
          \<lparr>after = c\<lparr>socket := ws_close (socket c)\<rparr>, console = [], rejected = None\<rparr>
      | Some msg \<Rightarrow>
          (case try_dispatch e msg c of
             Inr c' \<Rightarrow> \<lparr>after = c', console = [], rejected = None\<rparr>
           | Inl err \<Rightarrow> catch_dispatch msg err c))"

text \<open>
  A run of frames on one session: the clients left by the successive calls. (Each call is
  taken to run to completion; the order in which suspended handlers complete is not
  modelled.)
\<close>

fun receiveMessages :: "env \<Rightarrow> string list \<Rightarrow> Client \<Rightarrow> Client" where
  "receiveMessages e [] c = c"
| "receiveMessages e (data # rest) c = receiveMessages e rest (after (receiveMessage e data c))"

section \<open>Clients: the registry\<close>

text \<open>
  The fields of class \<^verbatim>\<open>Clients\<close>, together with what the runtime holds for it: the
  \<^verbatim>\<open>Client\<close> objects by reference (the array \<^verbatim>\<open>clients\<close> and the listeners on the sockets
  share them), the interval timers that are active, and the number of queued
  \<^verbatim>\<open>setTimeout\<close> callbacks. \<open>eventForwarder\<close> tells whether the forwarder has been created
  and started.
\<close>

record Clients =
  objs :: "nat \<Rightarrow> Client"
  nextRef :: nat
  clients :: "nat list"
  pingInterval :: "nat option"
  eventForwarder :: bool
  cleanupScheduled :: bool
  intervals :: "nat list"
  nextTimer :: nat
  timeouts :: nat

definition closed_socket :: WebSocket where
  "closed_socket = \<lparr>readyState = CLOSED, sent = [], pings = 0, closes = 0\<rparr>"

definition open_socket :: WebSocket where
  "open_socket = \<lparr>readyState = OPEN, sent = [], pings = 0, closes = 0\<rparr>"

definition new_Clients :: Clients where
  "new_Clients =
     \<lparr>objs = (\<lambda>_. new_Client closed_socket), nextRef = 0, clients = [],
      pingInterval = None, eventForwarder = False, cleanupScheduled = False,
      intervals = [], nextTimer = 0, timeouts = 0\<rparr>"

text \<open>The callback of \<^verbatim>\<open>setInterval\<close> in \<^verbatim>\<open>addSocket\<close>: the liveness sweep.\<close>

fun sweep_loop :: "nat list \<Rightarrow> nat list \<Rightarrow> (nat \<Rightarrow> Client) \<Rightarrow> nat list \<times> (nat \<Rightarrow> Client)" where
  "sweep_loop [] newClients h = (newClients, h)"
| "sweep_loop (r # rs) newClients h =
     (if isConnected (h r) then sweep_loop rs (newClients @ [r]) h
      else sweep_loop rs newClients (h(r := disconnect (h r))))"

definition sweep :: "Clients \<Rightarrow> Clients" where
  "sweep st =
     (case sweep_loop (clients st) [] (objs st) of
        (newClients, h) \<Rightarrow> st\<lparr>objs := h, clients := newClients\<rparr>)"

text \<open>The callback handed to the \<^verbatim>\<open>EventForwarder\<close> in \<^verbatim>\<open>addSocket\<close>: the fan-out.\<close>

fun fanOut_loop :: "json \<Rightarrow> nat list \<Rightarrow> (nat \<Rightarrow> Client) \<Rightarrow> (nat \<Rightarrow> Client)" where
  "fanOut_loop data [] h = h"
| "fanOut_loop data (r # rs) h =
     (if receiveEvents (h r) \<and> isConnected (h r)
      then fanOut_loop data rs (h(r := sendEvent data (h r)))
      else fanOut_loop data rs h)"

definition fanOut :: "json \<Rightarrow> Clients \<Rightarrow> Clients" where
  "fanOut data st = st\<lparr>objs := fanOut_loop data (clients st) (objs st)\<rparr>"

definition addSocket :: "env \<Rightarrow> WebSocket \<Rightarrow> Clients \<Rightarrow> Clients" where
  "addSocket e s st =
     (let client = sendVersion e (new_Client s);
          st1 = st\<lparr>objs := (objs st)(nextRef st := client),
                   nextRef := nextRef st + 1,
                   clients := clients st @ [nextRef st]\<rparr>;
          st2 = (if pingInterval st1 = None
                 then st1\<lparr>pingInterval := Some (nextTimer st1),
                          intervals := intervals st1 @ [nextTimer st1],
                          nextTimer := nextTimer st1 + 1\<rparr>
                 else st1)
      in if \<not> eventForwarder st2 then st2\<lparr>eventForwarder := True\<rparr> else st2)"

definition scheduleClientCleanup :: "Clients \<Rightarrow> Clients" where
  "scheduleClientCleanup st =
     (if cleanupScheduled st then st
      else st\<lparr>cleanupScheduled := True, timeouts := timeouts st + 1\<rparr>)"

definition cleanupClients :: "Clients \<Rightarrow> Clients" where
  "cleanupClients st =
     st\<lparr>cleanupScheduled := False,
        clients := filter (\<lambda>cl. isConnected (objs st cl)) (clients st)\<rparr>"

fun disconnect_each :: "nat list \<Rightarrow> (nat \<Rightarrow> Client) \<Rightarrow> (nat \<Rightarrow> Client)" where
  "disconnect_each [] h = h"
| "disconnect_each (r # rs) h = disconnect_each rs (h(r := disconnect (h r)))"

text \<open>\<^verbatim>\<open>Clients.disconnect\<close>, the shutdown of the registry.\<close>

definition Clients_disconnect :: "Clients \<Rightarrow> Clients" where
  "Clients_disconnect st =
     (let st1 = (case pingInterval st of
                   Some t \<Rightarrow> st\<lparr>intervals := removeAll t (intervals st)\<rparr>
                 | None \<Rightarrow> st);
          st2 = st1\<lparr>pingInterval := None\<rparr>;
          st3 = st2\<lparr>objs := disconnect_each (clients st2) (objs st2)\<rparr>
      in st3\<lparr>clients := []\<rparr>)"

subsection \<open>The event loop\<close>

text \<open>
  What can happen to a registry: a connection is accepted; a socket delivers a frame,
  a pong or its close notification (the transport has then reached \<open>CLOSED\<close>); an
  interval timer fires; a queued timeout fires; the upstream source emits an event;
  the server is destroyed. A listener only runs when it has been registered, a timer
  only when it is active.
\<close>

datatype event =
    Connection WebSocket
  | Message nat string
  | Pong nat
  | Close nat
  | Interval nat
  | Timeout
  | Upstream json
  | Shutdown

fun step :: "env \<Rightarrow> event \<Rightarrow> Clients \<Rightarrow> Clients" where
  "step e (Connection s) st = addSocket e s st"
| "step e (Message r data) st =
     (if r < nextRef st
      then st\<lparr>objs := (objs st)(r := after (receiveMessage e data (objs st r)))\<rparr>
      else st)"
| "step e (Pong r) st =
     (if r < nextRef st
      then st\<lparr>objs := (objs st)(r := (objs st r)\<lparr>outstandingPing := False\<rparr>)\<rparr>
      else st)"
| "step e (Close r) st =
     (if r < nextRef st
      then scheduleClientCleanup
             (st\<lparr>objs := (objs st)
                (r := (objs st r)\<lparr>socket := (socket (objs st r))\<lparr>readyState := CLOSED\<rparr>\<rparr>)\<rparr>)
      else st)"
| "step e (Interval t) st = (if t \<in> set (intervals st) then sweep st else st)"
| "step e Timeout st =
     (if 0 < timeouts st then cleanupClients (st\<lparr>timeouts := timeouts st - 1\<rparr>) else st)"
| "step e (Upstream data) st = (if eventForwarder st then fanOut data st else st)"
| "step e Shutdown st = Clients_disconnect st"

fun run :: "(env \<times> event) list \<Rightarrow> Clients \<Rightarrow> Clients" where
  "run [] st = st"
| "run ((e, ev) # rest) st = run rest (step e ev st)"

section \<open>An environment for evaluation\<close>

text \<open>
  Five frames and what \<^verbatim>\<open>JSON.parse\<close> makes of them; the text \<^verbatim>\<open>not json\<close> stands for a
  malformed frame. The node handler fails with an error of the device-control library,
  the controller handler succeeds with an empty payload, and \<^verbatim>\<open>toString\<close> is the one
  inherited member that is given its behaviour.
\<close>

definition frame_start :: string where
  \<open>frame_start = ''{"messageId":"1","command":"start_listening"}''\<close>

definition frame_bogus :: string where
  \<open>frame_bogus = ''{"messageId":"2","command":"bogus.action"}''\<close>

definition frame_driver :: string where
  \<open>frame_driver = ''{"messageId":"3","command":"driver.get_config"}''\<close>

definition frame_node :: string where
  \<open>frame_node = ''{"messageId":"4","command":"node.set_value"}''\<close>

definition command_envelope :: "string \<Rightarrow> string \<Rightarrow> json" where
  "command_envelope messageId command =
     JObj [(''messageId'', JStr messageId), (''command'', JStr command)]"

definition example_parse :: "string \<Rightarrow> json option" where
  "example_parse data =
     (if data = ''null'' then Some JNull
      else if data = frame_start then Some (command_envelope ''1'' ''start_listening'')
      else if data = frame_bogus then Some (command_envelope ''2'' ''bogus.action'')
      else if data = frame_driver then Some (command_envelope ''3'' ''driver.get_config'')
      else if data = frame_node then Some (command_envelope ''4'' ''node.set_value'')
      else None)"

definition example_env :: env where
  "example_env =
     \<lparr>JSON_parse = example_parse,
      dumpState = JObj [(''nodes'', JArr [])],
      ControllerMessageHandler_handle = (\<lambda>msg. Inr (Some (JObj []))),
      NodeMessageHandler_handle = (\<lambda>msg. Inl (ZWaveError 202 ''Node 5 is dead'')),
      Object_prototype_call =
        (\<lambda>key msg. if key = ''toString'' then Inr (Some (JStr ''[object Object]''))
                    else Inl TypeError),
      version = ''1.0.0'',
      homeId = Some (JNum 3530)\<rparr>"

text \<open>An upstream event, and two runs of the registry used for evaluation.\<close>

definition example_event :: json where
  "example_event = JObj [(''source'', JStr ''node''), (''event'', JStr ''value updated'')]"

definition listening_session :: "(env \<times> event) list" where
  "listening_session =
     [(example_env, Connection open_socket), (example_env, Message 0 frame_start)]"

definition two_sessions :: "(env \<times> event) list" where
  "two_sessions =
     [(example_env, Connection open_socket), (example_env, Connection open_socket)]"

section \<open>What every reachable registry satisfies\<close>

text \<open>
  The array \<^verbatim>\<open>clients\<close> holds each client once and only clients that have been
  created; a cleanup callback is queued exactly when \<open>cleanupScheduled\<close> is set; the
  only active interval timer is the one \<open>pingInterval\<close> refers to; and the forwarder
  has been started as soon as a client is tracked.
\<close>

definition wf :: "Clients \<Rightarrow> bool" where
  "wf st =
     (distinct (clients st) \<and>
      list_all (\<lambda>r. r < nextRef st) (clients st) \<and>
      timeouts st = (if cleanupScheduled st then 1 else 0) \<and>
      intervals st = (case pingInterval st of None \<Rightarrow> [] | Some t \<Rightarrow> [t]) \<and>
      (clients st = [] \<or> eventForwarder st))"

section \<open>Basic facts\<close>

lemma js_split_not_Nil: "js_split sep s \<noteq> []"
  by (induction s) (auto split: list.splits)

lemma hd_js_split: "hd (js_split sep s) = takeWhile (\<lambda>c. c \<noteq> sep) s"
  by (induction s) (auto split: list.splits simp: js_split_not_Nil)

lemmas send_defs = sendResultError_def sendResultSuccess_def sendData_def ws_send_def
  JSON_stringify_def List.map_filter_def

lemma frames_distinct:
  "frame_start \<noteq> ''null''" "frame_bogus \<noteq> ''null''"
  "frame_driver \<noteq> ''null''" "frame_node \<noteq> ''null''"
  "frame_bogus \<noteq> frame_start" "frame_driver \<noteq> frame_start" "frame_node \<noteq> frame_start"
  "frame_driver \<noteq> frame_bogus" "frame_node \<noteq> frame_bogus" "frame_node \<noteq> frame_driver"
  by (simp_all add: frame_start_def frame_bogus_def frame_driver_def frame_node_def)

section \<open>One result per command\<close>

text \<open>
  C1. Every frame that decodes is to cause exactly one Result Envelope with the
  \<^verbatim>\<open>messageId\<close> of the command, and a frame that does not decode is to close the
  connection. The frame \<^verbatim>\<open>null\<close> decodes: \<^verbatim>\<open>JSON.parse\<close> returns \<^verbatim>\<open>null\<close>. Reading
  \<^verbatim>\<open>msg.command\<close> then throws inside the \<^verbatim>\<open>try\<close> block, and the \<^verbatim>\<open>catch\<close> block throws
  again on \<^verbatim>\<open>msg.messageId\<close>, before \<^verbatim>\<open>sendResultError\<close> is entered. The call leaves the
  client as it found it: no Result Envelope has been sent, the socket has not been
  closed, and the promise is rejected. Between a handshake and an unknown command, the
  frame \<^verbatim>\<open>null\<close> is the one of three frames that gets no answer.
\<close>

theorem receiveMessage_null_frame:
  "JSON_parse example_env ''null'' = Some JNull \<and>
   receiveMessage example_env ''null'' (new_Client open_socket) =
     \<lparr>after = new_Client open_socket,
      console = [(''Unexpected error'', TypeError)],
      rejected = Some TypeError\<rparr> \<and>
   map (\<lambda>frame. map_of (envelope_fields frame) ''messageId'')
     (sent (socket (receiveMessages example_env [frame_start, ''null'', frame_bogus]
        (new_Client open_socket)))) = [Some (JStr ''1''), Some (JStr ''2'')] \<and>
   closes (socket (receiveMessages example_env [frame_start, ''null'', frame_bogus]
        (new_Client open_socket))) = 0"
  by (simp add: receiveMessage_def example_env_def example_parse_def try_dispatch_def
      catch_dispatch_def frames_distinct command_envelope_def instanceHandlers_def
      Instance_of_def Object_prototype_keys_def send_defs new_Client_def open_socket_def)

text \<open>
  The frames for which the property does hold. A frame that does not decode closes the socket
  and sends nothing; a frame that decodes to anything but \<^verbatim>\<open>null\<close> hands exactly one
  frame to the socket and leaves it open.
\<close>

lemma property_Some_object:
  "property msg key = Inr (Some v) \<Longrightarrow> \<exists>ps. msg = JObj ps \<and> map_of ps key = Some v"
  by (cases msg) auto

lemma property_not_null: "msg \<noteq> JNull \<Longrightarrow> \<exists>v. property msg key = Inr v"
  by (cases msg) auto

lemma receiveMessage_malformed:
  "JSON_parse e data = None \<Longrightarrow>
   receiveMessage e data c =
     \<lparr>after = c\<lparr>socket := ws_close (socket c)\<rparr>, console = [], rejected = None\<rparr>"
  by (simp add: receiveMessage_def)

lemma try_dispatch_Inr:
  "try_dispatch e msg c = Inr c' \<Longrightarrow>
   \<exists>frame. socket c' = ws_send frame (socket c)"
  by (auto simp: try_dispatch_def sendResultSuccess_def sendData_def
      split: sum.splits if_splits slot.splits option.splits json.splits)

lemma catch_dispatch_not_null:
  "msg \<noteq> JNull \<Longrightarrow>
   \<exists>frame. socket (after (catch_dispatch msg err c)) = ws_send frame (socket c) \<and>
     rejected (catch_dispatch msg err c) = None"
  by (cases msg) (auto simp: catch_dispatch_def sendResultError_def sendData_def)

lemma receiveMessage_decoded:
  assumes "JSON_parse e data = Some msg" and "msg \<noteq> JNull"
  shows "\<exists>frame. socket (after (receiveMessage e data c)) = ws_send frame (socket c)"
proof (cases "try_dispatch e msg c")
  case (Inl err)
  then show ?thesis
    using assms catch_dispatch_not_null [OF assms(2), of err c]
    by (auto simp: receiveMessage_def)
next
  case (Inr c')
  then show ?thesis
    using assms try_dispatch_Inr [OF Inr] by (auto simp: receiveMessage_def)
qed

text \<open>
  So a run of frames that all decode to something other than \<^verbatim>\<open>null\<close> hands the
  socket as many frames as were received, and never closes it.
\<close>

lemma receiveMessages_decoded:
  assumes "list_all (\<lambda>data. JSON_parse e data \<noteq> None \<and> JSON_parse e data \<noteq> Some JNull) datas"
  shows "length (sent (socket (receiveMessages e datas c))) =
      length (sent (socket c)) + length datas \<and>
    closes (socket (receiveMessages e datas c)) = closes (socket c) \<and>
    readyState (socket (receiveMessages e datas c)) = readyState (socket c)"
  using assms
proof (induction datas arbitrary: c)
  case Nil
  then show ?case by simp
next
  case (Cons data datas)
  then obtain msg where m: "JSON_parse e data = Some msg" "msg \<noteq> JNull"
    by auto
  from receiveMessage_decoded [OF m, of c] obtain frame where
    f: "socket (after (receiveMessage e data c)) = ws_send frame (socket c)"
    by blast
  from Cons.prems have "list_all (\<lambda>data. JSON_parse e data \<noteq> None \<and>
      JSON_parse e data \<noteq> Some JNull) datas"
    by simp
  from Cons.IH [OF this, of "after (receiveMessage e data c)"] show ?case
    by (simp add: f ws_send_def)
qed

section \<open>Failures of the device-control library\<close>

text \<open>
  C4. When a handler fails with an error of the controlled-device subsystem, the failure
  Result Envelope is to carry \<^verbatim>\<open>zwaveErrorCode\<close> and \<^verbatim>\<open>zwaveErrorMessage\<close> besides
  \<^verbatim>\<open>errorCode\<close>, as \<^verbatim>\<open>OutgoingResultMessageZWaveError\<close> declares. \<^verbatim>\<open>receiveMessage\<close> has one way
  of reporting a failure, \<^verbatim>\<open>sendResultError(messageId, errorCode)\<close>: for a node command
  whose handler is rejected with a \<open>ZWaveError\<close>, the envelope has the four fields
  \<^verbatim>\<open>type\<close>, \<^verbatim>\<open>success\<close>, \<^verbatim>\<open>messageId\<close> and \<^verbatim>\<open>errorCode\<close>, the code is \<open>unknownError\<close>, and the
  nested code and message only reach the console.
\<close>

theorem node_ZWaveError_envelope:
  "NodeMessageHandler_handle example_env (command_envelope ''4'' ''node.set_value'') =
     Inl (ZWaveError 202 ''Node 5 is dead'') \<and>
   receiveMessage example_env frame_node (new_Client open_socket) =
     \<lparr>after = (new_Client open_socket)
        \<lparr>socket := open_socket
           \<lparr>sent := [JObj [(''type'', JStr ''result''), (''success'', JBool False),
                           (''messageId'', JStr ''4''),
                           (''errorCode'', JStr ''unknownError'')]]\<rparr>\<rparr>,
      console = [(''Unexpected error'', ZWaveError 202 ''Node 5 is dead'')],
      rejected = None\<rparr>"
  by (simp add: receiveMessage_def example_env_def example_parse_def try_dispatch_def
      catch_dispatch_def frames_distinct command_envelope_def instanceHandlers_def Instance_of_def
      send_defs new_Client_def open_socket_def unknownError_def)

section \<open>The handshake\<close>

text \<open>
  C5. A \<^verbatim>\<open>start_listening\<close> command is answered with a success Result Envelope whose
  result is the snapshot \<^verbatim>\<open>{state: dumpState(driver)}\<close>, and sets \<open>receiveEvents\<close>. A second
  \<^verbatim>\<open>start_listening\<close> (whatever the state of the driver is by then) is answered in the
  same way: the socket has been handed the two success envelopes, in order,
  \<open>receiveEvents\<close> is still set, and nothing but the socket's record of sent frames
  differs from the client the first command left.
\<close>

theorem start_listening_idempotent:
  assumes "JSON_parse e data = Some (JObj ps)"
    and "map_of ps ''command'' = Some (JStr ''start_listening'')"
    and "JSON_parse e' data' = Some (JObj ps')"
    and "map_of ps' ''command'' = Some (JStr ''start_listening'')"
  shows "receiveMessage e data c =
     \<lparr>after = (sendResultSuccess (map_of ps ''messageId'')
                 (Some (JObj [(''state'', dumpState e)])) c)\<lparr>receiveEvents := True\<rparr>,
      console = [], rejected = None\<rparr> \<and>
    receiveEvents (after (receiveMessage e data c)) \<and>
    sent (socket (after (receiveMessage e data c))) =
      sent (socket c) @
      [JSON_stringify
         [(''type'', Some (JStr ''result'')),
          (''success'', Some (JBool True)),
          (''messageId'', map_of ps ''messageId''),
          (''result'', Some (JObj [(''state'', dumpState e)]))]] \<and>
    receiveEvents (after (receiveMessage e' data' (after (receiveMessage e data c)))) \<and>
    sent (socket (after (receiveMessage e' data' (after (receiveMessage e data c))))) =
      sent (socket c) @
      [JSON_stringify
         [(''type'', Some (JStr ''result'')),
          (''success'', Some (JBool True)),
          (''messageId'', map_of ps ''messageId''),
          (''result'', Some (JObj [(''state'', dumpState e)]))],
       JSON_stringify
         [(''type'', Some (JStr ''result'')),
          (''success'', Some (JBool True)),
          (''messageId'', map_of ps' ''messageId''),
          (''result'', Some (JObj [(''state'', dumpState e')]))]] \<and>
    after (receiveMessage e' data' (after (receiveMessage e data c))) =
      (after (receiveMessage e data c))
        \<lparr>socket := socket (after (receiveMessage e' data' (after (receiveMessage e data c))))\<rparr> \<and>
    readyState (socket (after (receiveMessage e' data' (after (receiveMessage e data c))))) =
      readyState (socket c)"
proof -
  have one: "\<And>e data ps c. JSON_parse e data = Some (JObj ps) \<Longrightarrow>
      map_of ps ''command'' = Some (JStr ''start_listening'') \<Longrightarrow>
      receiveMessage e data c =
        \<lparr>after = (sendResultSuccess (map_of ps ''messageId'')
                 (Some (JObj [(''state'', dumpState e)])) c)\<lparr>receiveEvents := True\<rparr>,
         console = [], rejected = None\<rparr>"
    by (simp add: receiveMessage_def try_dispatch_def)
  show ?thesis
    unfolding one [OF assms(3,4)] one [OF assms(1,2)]
    by (simp add: sendResultSuccess_def sendData_def ws_send_def)
qed

text \<open>The handshake sent twice on a fresh session of the example environment.\<close>

theorem start_listening_idempotent_witness:
  "JSON_parse example_env frame_start = Some (command_envelope ''1'' ''start_listening'') \<and>
   receiveEvents (after (receiveMessage example_env frame_start (new_Client open_socket))) \<and>
   receiveEvents (after (receiveMessage example_env frame_start
     (after (receiveMessage example_env frame_start (new_Client open_socket))))) \<and>
   sent (socket (after (receiveMessage example_env frame_start
     (after (receiveMessage example_env frame_start (new_Client open_socket)))))) =
     [JObj [(''type'', JStr ''result''), (''success'', JBool True), (''messageId'', JStr ''1''),
            (''result'', JObj [(''state'', JObj [(''nodes'', JArr [])])])],
      JObj [(''type'', JStr ''result''), (''success'', JBool True), (''messageId'', JStr ''1''),
            (''result'', JObj [(''state'', JObj [(''nodes'', JArr [])])])]]"
proof -
  have p: "JSON_parse example_env frame_start =
      Some (JObj [(''messageId'', JStr ''1''), (''command'', JStr ''start_listening'')])"
    by (simp add: example_env_def example_parse_def frames_distinct command_envelope_def)
  have c: "map_of [(''messageId'', JStr ''1''), (''command'', JStr ''start_listening'')]
      ''command'' = Some (JStr ''start_listening'')"
    by simp
  have d: "dumpState example_env = JObj [(''nodes'', JArr [])]"
    by (simp add: example_env_def)
  have s: "sent (socket (new_Client open_socket)) = []"
    by (simp add: new_Client_def open_socket_def)
  from start_listening_idempotent [OF p c p c, THEN conjunct2, of "new_Client open_socket"] p
  show ?thesis
    by (simp add: command_envelope_def d s JSON_stringify_def List.map_filter_def)
qed

section \<open>Commands without a handler\<close>

text \<open>
  C6, as amended. A decoded command other than \<^verbatim>\<open>start_listening\<close> whose group (the part
  before the first dot) is none of \<^verbatim>\<open>controller\<close>, \<^verbatim>\<open>driver\<close>, \<^verbatim>\<open>node\<close>, and is not the
  name of a property that the handler table inherits from \<^verbatim>\<open>Object.prototype\<close>, is
  answered with one failure Result Envelope made of \<^verbatim>\<open>type\<close>, \<^verbatim>\<open>success: false\<close>, the
  \<^verbatim>\<open>messageId\<close> of the command and \<^verbatim>\<open>errorCode: unknownCommand\<close>. The command string is
  carried by the \<open>UnknownCommandError\<close> that is raised and logged, not by the envelope.
  The socket is left open.
\<close>

theorem unknown_group_unknownCommand:
  assumes "JSON_parse e data = Some (JObj ps)"
    and "map_of ps ''command'' = Some (JStr command)"
    and "command \<noteq> ''start_listening''"
    and "Instance_of (hd (js_split (CHR ''.'') command)) = None"
    and "hd (js_split (CHR ''.'') command) \<notin> set Object_prototype_keys"
  shows "receiveMessage e data c =
     \<lparr>after = sendResultError (map_of ps ''messageId'') unknownCommand c,
      console = [(''Message error'', UnknownCommandError command)],
      rejected = None\<rparr> \<and>
    sent (socket (after (receiveMessage e data c))) =
      sent (socket c) @
      [JSON_stringify
         [(''type'', Some (JStr ''result'')),
          (''success'', Some (JBool False)),
          (''messageId'', map_of ps ''messageId''),
          (''errorCode'', Some (JStr unknownCommand))]] \<and>
    readyState (socket (after (receiveMessage e data c))) = readyState (socket c) \<and>
    closes (socket (after (receiveMessage e data c))) = closes (socket c)"
proof -
  have disp: "try_dispatch e (JObj ps) c = Inl (UnknownCommandError command)"
    using assms(2-5) by (simp add: try_dispatch_def instanceHandlers_def)
  have r: "receiveMessage e data c =
     \<lparr>after = sendResultError (map_of ps ''messageId'') unknownCommand c,
      console = [(''Message error'', UnknownCommandError command)],
      rejected = None\<rparr>"
    using assms(1) disp by (simp add: receiveMessage_def catch_dispatch_def)
  show ?thesis
    unfolding r by (simp add: sendResultError_def sendData_def ws_send_def)
qed

text \<open>The command \<^verbatim>\<open>bogus.action\<close> on a fresh session of the example environment.\<close>

theorem unknown_group_unknownCommand_witness:
  "JSON_parse example_env frame_bogus = Some (command_envelope ''2'' ''bogus.action'') \<and>
   receiveMessage example_env frame_bogus (new_Client open_socket) =
     \<lparr>after = sendResultError (Some (JStr ''2'')) unknownCommand (new_Client open_socket),
      console = [(''Message error'', UnknownCommandError ''bogus.action'')],
      rejected = None\<rparr>"
proof -
  have p: "JSON_parse example_env frame_bogus =
      Some (JObj [(''messageId'', JStr ''2''), (''command'', JStr ''bogus.action'')])"
    by (simp add: example_env_def example_parse_def frames_distinct command_envelope_def)
  have c: "map_of [(''messageId'', JStr ''2''), (''command'', JStr ''bogus.action'')]
      ''command'' = Some (JStr ''bogus.action'')"
    by simp
  have n: "''bogus.action'' \<noteq> ''start_listening''"
    by simp
  have g: "Instance_of (hd (js_split (CHR ''.'') ''bogus.action'')) = None"
    by (simp add: Instance_of_def)
  have k: "hd (js_split (CHR ''.'') ''bogus.action'') \<notin> set Object_prototype_keys"
    by (simp add: Object_prototype_keys_def)
  from unknown_group_unknownCommand [OF p c n g k, THEN conjunct1, of "new_Client open_socket"] p
  show ?thesis by (simp add: command_envelope_def)
qed

text \<open>
  The envelope that answers \<^verbatim>\<open>bogus.action\<close> does not carry the command string: none
  of its four fields holds it.
\<close>

theorem unknown_group_envelope_counterexample:
  "sent (socket (after (receiveMessage example_env frame_bogus (new_Client open_socket)))) =
     [JObj [(''type'', JStr ''result''), (''success'', JBool False),
            (''messageId'', JStr ''2''), (''errorCode'', JStr unknownCommand)]] \<and>
   JStr ''bogus.action'' \<notin> snd ` set (envelope_fields (last (sent (socket (after
     (receiveMessage example_env frame_bogus (new_Client open_socket)))))))"
  by (simp add: receiveMessage_def example_env_def example_parse_def try_dispatch_def
      catch_dispatch_def frames_distinct command_envelope_def instanceHandlers_def Instance_of_def
      Object_prototype_keys_def
      send_defs new_Client_def open_socket_def unknownCommand_def)

text \<open>
  A group that names an inherited property is not answered with \<open>unknownCommand\<close>: the
  lookup \<^verbatim>\<open>this.instanceHandlers[instance]\<close> finds the inherited function, which is called
  like a handler, and what it returns is sent as a success.
\<close>

lemma inherited_member_is_dispatched:
  assumes "JSON_parse e data = Some (JObj ps)"
    and "map_of ps ''command'' = Some (JStr ''toString.x'')"
    and "Object_prototype_call e ''toString'' (JObj ps) = Inr result"
  shows "after (receiveMessage e data c) = sendResultSuccess (map_of ps ''messageId'') result c"
  using assms
  by (simp add: receiveMessage_def try_dispatch_def instanceHandlers_def Instance_of_def
      Object_prototype_keys_def)

section \<open>The driver group\<close>

text \<open>
  C10. For every decoded command whose group is \<^verbatim>\<open>driver\<close>, the registered handler throws
  a plain \<^verbatim>\<open>Error\<close>, which is not a \<open>BaseError\<close>: the session answers with one failure
  Result Envelope whose \<^verbatim>\<open>errorCode\<close> is \<open>unknownError\<close> (which is not \<open>unknownCommand\<close>),
  with the \<^verbatim>\<open>messageId\<close> of the command, and the socket is left as it was.
\<close>

theorem driver_group_unknownError:
  assumes "JSON_parse e data = Some (JObj ps)"
    and "map_of ps ''command'' = Some (JStr command)"
    and "hd (js_split (CHR ''.'') command) = ''driver''"
  shows "receiveMessage e data c =
     \<lparr>after = sendResultError (map_of ps ''messageId'') unknownError c,
      console = [(''Unexpected error'', Error ''Driver handler not implemented.'')],
      rejected = None\<rparr> \<and>
    sent (socket (after (receiveMessage e data c))) =
      sent (socket c) @
      [JSON_stringify
         [(''type'', Some (JStr ''result'')),
          (''success'', Some (JBool False)),
          (''messageId'', map_of ps ''messageId''),
          (''errorCode'', Some (JStr unknownError))]] \<and>
    unknownError \<noteq> unknownCommand \<and>
    readyState (socket (after (receiveMessage e data c))) = readyState (socket c) \<and>
    closes (socket (after (receiveMessage e data c))) = closes (socket c)"
proof -
  have ne: "command \<noteq> ''start_listening''"
    using assms(3) by (auto simp: hd_js_split)
  have disp: "try_dispatch e (JObj ps) c = Inl (Error ''Driver handler not implemented.'')"
    using assms(2,3) ne
    by (simp add: try_dispatch_def instanceHandlers_def Instance_of_def)
  have r: "receiveMessage e data c =
     \<lparr>after = sendResultError (map_of ps ''messageId'') unknownError c,
      console = [(''Unexpected error'', Error ''Driver handler not implemented.'')],
      rejected = None\<rparr>"
    using assms(1) disp by (simp add: receiveMessage_def catch_dispatch_def)
  show ?thesis
    unfolding r
    by (simp add: sendResultError_def sendData_def ws_send_def unknownError_def
        unknownCommand_def)
qed

text \<open>The command \<^verbatim>\<open>driver.get_config\<close> on a fresh session of the example environment.\<close>

theorem driver_group_unknownError_witness:
  "JSON_parse example_env frame_driver = Some (command_envelope ''3'' ''driver.get_config'') \<and>
   receiveMessage example_env frame_driver (new_Client open_socket) =
     \<lparr>after = sendResultError (Some (JStr ''3'')) unknownError (new_Client open_socket),
      console = [(''Unexpected error'', Error ''Driver handler not implemented.'')],
      rejected = None\<rparr>"
proof -
  have p: "JSON_parse example_env frame_driver =
      Some (JObj [(''messageId'', JStr ''3''), (''command'', JStr ''driver.get_config'')])"
    by (simp add: example_env_def example_parse_def frames_distinct command_envelope_def)
  have c: "map_of [(''messageId'', JStr ''3''), (''command'', JStr ''driver.get_config'')]
      ''command'' = Some (JStr ''driver.get_config'')"
    by simp
  have g: "hd (js_split (CHR ''.'') ''driver.get_config'') = ''driver''"
    by simp
  from driver_group_unknownError [OF p c g, THEN conjunct1, of "new_Client open_socket"] p
  show ?thesis by (simp add: command_envelope_def)
qed

section \<open>Invariants of the registry\<close>

lemma isConnected_disconnect [simp]: "\<not> isConnected (disconnect c)"
  by (simp add: isConnected_def disconnect_def ws_close_def)

lemma sweep_loop_fst:
  "fst (sweep_loop rs new h) = new @ filter (\<lambda>r. isConnected (h r)) rs"
proof (induction rs arbitrary: new h)
  case Nil
  then show ?case by simp
next
  case (Cons r rs)
  show ?case
  proof (cases "isConnected (h r)")
    case True
    then show ?thesis by (simp add: Cons.IH)
  next
    case False
    have "\<And>x. isConnected ((h(r := disconnect (h r))) x) = isConnected (h x)"
      using False by simp
    then show ?thesis using False by (simp add: Cons.IH)
  qed
qed

lemma sweep_loop_snd_distinct:
  "distinct rs \<Longrightarrow>
   snd (sweep_loop rs new h) x =
     (if x \<in> set rs \<and> \<not> isConnected (h x) then disconnect (h x) else h x)"
  by (induction rs arbitrary: new h) auto

lemma sweep_loop_keeps_probe_state:
  "pings (socket (snd (sweep_loop rs new h) x)) = pings (socket (h x)) \<and>
   outstandingPing (snd (sweep_loop rs new h) x) = outstandingPing (h x)"
  by (induction rs arbitrary: new h) (auto simp: disconnect_def ws_close_def)

lemma clients_sweep: "clients (sweep st) = filter (\<lambda>r. isConnected (objs st r)) (clients st)"
  using sweep_loop_fst [of "clients st" "[]" "objs st"]
  by (cases "sweep_loop (clients st) [] (objs st)") (simp add: sweep_def)

lemma sweep_fields:
  "nextRef (sweep st) = nextRef st" "pingInterval (sweep st) = pingInterval st"
  "eventForwarder (sweep st) = eventForwarder st" "cleanupScheduled (sweep st) = cleanupScheduled st"
  "intervals (sweep st) = intervals st" "timeouts (sweep st) = timeouts st"
  "nextTimer (sweep st) = nextTimer st"
  by (simp_all add: sweep_def split: prod.splits)

lemma fanOut_loop_distinct:
  "distinct rs \<Longrightarrow>
   fanOut_loop data rs h x =
     (if x \<in> set rs \<and> receiveEvents (h x) \<and> isConnected (h x)
      then sendEvent data (h x) else h x)"
  by (induction rs arbitrary: h) auto

lemma disconnect_each_distinct:
  "distinct rs \<Longrightarrow>
   disconnect_each rs h x = (if x \<in> set rs then disconnect (h x) else h x)"
  by (induction rs arbitrary: h) auto

lemma wf_new_Clients: "wf new_Clients"
  by (simp add: wf_def new_Clients_def)

lemma wf_addSocket: "wf st \<Longrightarrow> wf (addSocket e s st)"
  by (auto simp: wf_def addSocket_def Let_def list_all_iff split: option.splits)

lemma wf_sweep: "wf st \<Longrightarrow> wf (sweep st)"
  by (auto simp: wf_def clients_sweep sweep_fields list_all_iff filter_empty_conv)

lemma wf_cleanupClients:
  "wf st \<Longrightarrow> 0 < timeouts st \<Longrightarrow> wf (cleanupClients (st\<lparr>timeouts := timeouts st - Suc 0\<rparr>))"
  by (auto simp: wf_def cleanupClients_def list_all_iff filter_empty_conv split: if_splits)

lemma wf_scheduleClientCleanup: "wf st \<Longrightarrow> wf (scheduleClientCleanup st)"
  by (auto simp: wf_def scheduleClientCleanup_def)

lemma wf_objs_update: "wf st \<Longrightarrow> wf (st\<lparr>objs := h\<rparr>)"
  by (simp add: wf_def)

lemma wf_Clients_disconnect: "wf st \<Longrightarrow> wf (Clients_disconnect st)"
  by (auto simp: wf_def Clients_disconnect_def Let_def split: option.splits)

lemma wf_step: "wf st \<Longrightarrow> wf (step e ev st)"
proof (cases ev)
  case (Connection s)
  then show "wf st \<Longrightarrow> ?thesis" by (simp add: wf_addSocket)
next
  case (Message r data)
  then show "wf st \<Longrightarrow> ?thesis" by (simp add: wf_objs_update)
next
  case (Pong r)
  then show "wf st \<Longrightarrow> ?thesis" by (simp add: wf_objs_update)
next
  case (Close r)
  then show "wf st \<Longrightarrow> ?thesis" by (simp add: wf_objs_update wf_scheduleClientCleanup)
next
  case (Interval t)
  then show "wf st \<Longrightarrow> ?thesis" by (simp add: wf_sweep)
next
  case Timeout
  then show "wf st \<Longrightarrow> ?thesis" by (simp add: wf_cleanupClients)
next
  case (Upstream data)
  then show "wf st \<Longrightarrow> ?thesis" by (simp add: fanOut_def wf_objs_update)
next
  case Shutdown
  then show "wf st \<Longrightarrow> ?thesis" by (simp add: wf_Clients_disconnect)
qed

lemma wf_run: "wf st \<Longrightarrow> wf (run evs st)"
  by (induction evs arbitrary: st) (auto simp: wf_step)

lemma wf_reachable: "wf (run evs new_Clients)"
  by (simp add: wf_run wf_new_Clients)

lemma listening_session_state:
  "clients (run listening_session new_Clients) = [0]"
  "receiveEvents (objs (run listening_session new_Clients) 0)"
  "isConnected (objs (run listening_session new_Clients) 0)"
  by (simp_all add: listening_session_def new_Clients_def addSocket_def Let_def
      receiveMessage_def example_env_def example_parse_def frames_distinct try_dispatch_def
      command_envelope_def sendResultSuccess_def sendData_def sendVersion_def new_Client_def
      isConnected_def ws_send_def open_socket_def)

section \<open>Event fan-out\<close>

lemma step_Upstream_tracked:
  assumes "wf st" and "r \<in> set (clients st)"
  shows "objs (step e (Upstream data) st) r =
     (if receiveEvents (objs st r) \<and> isConnected (objs st r)
      then sendEvent data (objs st r) else objs st r)"
proof -
  from assms have "eventForwarder st" and "distinct (clients st)"
    by (auto simp: wf_def)
  then show ?thesis
    using assms(2) by (simp add: fanOut_def fanOut_loop_distinct)
qed

lemma fanOut_untracked:
  "r \<notin> set (clients (run evs new_Clients)) \<Longrightarrow>
   objs (step e (Upstream data) (run evs new_Clients)) r = objs (run evs new_Clients) r"
  using wf_reachable [of evs] by (simp add: fanOut_def fanOut_loop_distinct wf_def)

text \<open>
  C2. In every state the registry can reach, when the forwarder delivers an upstream
  event, a tracked session is handed one Event Envelope \<^verbatim>\<open>{type: "event", event}\<close> if its
  \<open>receiveEvents\<close> flag is set and its socket is open, and is left untouched otherwise:
  the frames handed to its socket change if and only if both hold.
\<close>

theorem fanOut_iff_subscribed_and_connected:
  assumes "st = run evs new_Clients" and "r \<in> set (clients st)"
  shows "objs (step e (Upstream data) st) r =
      (if receiveEvents (objs st r) \<and> isConnected (objs st r)
       then sendEvent data (objs st r) else objs st r) \<and>
    sent (socket (sendEvent data (objs st r))) =
      sent (socket (objs st r)) @
      [JSON_stringify [(''type'', Some (JStr ''event'')), (''event'', Some data)]] \<and>
    (sent (socket (objs (step e (Upstream data) st) r)) \<noteq> sent (socket (objs st r))) =
      (receiveEvents (objs st r) \<and> isConnected (objs st r))"
proof -
  have "wf st" using assms(1) by (simp add: wf_reachable)
  from step_Upstream_tracked [OF this assms(2)] show ?thesis
    by (simp add: sendEvent_def sendData_def ws_send_def)
qed

text \<open>A session that has sent the handshake receives the next upstream event.\<close>

theorem fanOut_iff_subscribed_and_connected_witness:
  "0 \<in> set (clients (run listening_session new_Clients)) \<and>
   objs (step example_env (Upstream example_event) (run listening_session new_Clients)) 0 =
     sendEvent example_event (objs (run listening_session new_Clients) 0)"
proof -
  have m: "0 \<in> set (clients (run listening_session new_Clients))"
    by (simp add: listening_session_state)
  from fanOut_iff_subscribed_and_connected [OF refl m, THEN conjunct1,
      of example_env example_event] m
  show ?thesis by (simp add: listening_session_state)
qed

section \<open>The liveness sweep\<close>

text \<open>
  The sweep never calls \<^verbatim>\<open>checkAlive\<close>: it leaves the number of pings and the
  \<open>outstandingPing\<close> flag of every client as they were.
\<close>

lemma sweep_never_probes:
  "pings (socket (objs (sweep st) r)) = pings (socket (objs st r)) \<and>
   outstandingPing (objs (sweep st) r) = outstandingPing (objs st r)"
  using sweep_loop_keeps_probe_state [of "clients st" "[]" "objs st" r]
  by (cases "sweep_loop (clients st) [] (objs st)") (simp add: sweep_def)

text \<open>
  C3. Every period of the sweep is to call \<^verbatim>\<open>checkAlive()\<close> on every tracked session,
  so that a session that is not awaiting a pong is sent a probe and has its flag set,
  and one that is still awaiting a pong is disconnected. With one open session tracked
  and the interval timer active, the sweep keeps the session and does nothing else: no
  ping is sent and \<open>outstandingPing\<close> stays false.
\<close>

theorem sweep_sends_no_probe:
  "intervals (step example_env (Connection open_socket) new_Clients) = [0] \<and>
   clients (step example_env (Interval 0)
     (step example_env (Connection open_socket) new_Clients)) = [0] \<and>
   pings (socket (objs (step example_env (Interval 0)
     (step example_env (Connection open_socket) new_Clients)) 0)) = 0 \<and>
   outstandingPing (objs (step example_env (Interval 0)
     (step example_env (Connection open_socket) new_Clients)) 0) = False"
  by (simp add: new_Clients_def addSocket_def Let_def sweep_def sendVersion_def sendData_def
      new_Client_def isConnected_def ws_send_def open_socket_def)

section \<open>The version envelope\<close>

text \<open>
  \<^verbatim>\<open>addSocket\<close> hands exactly one frame to the new socket, the version envelope.
\<close>

lemma addSocket_sends_version:
  "objs (addSocket e s st) (nextRef st) = sendVersion e (new_Client s) \<and>
   sent (socket (sendVersion e (new_Client s))) =
     sent s @
     [JSON_stringify
        [(''type'', Some (JStr ''version'')),
         (''driverVersion'', Some (JStr ''TBD'')),
         (''serverVersion'', Some (JStr (version e))),
         (''homeId'', homeId e)]]"
  by (simp add: addSocket_def Let_def sendVersion_def sendData_def ws_send_def new_Client_def)

text \<open>
  C7. On accept, one Version Envelope is sent at once, and it is to contain \<^verbatim>\<open>type\<close>,
  \<^verbatim>\<open>driverVersion\<close>, \<^verbatim>\<open>serverVersion\<close>, \<^verbatim>\<open>homeId\<close>, \<^verbatim>\<open>minSchemaVersion\<close> and
  \<^verbatim>\<open>maxSchemaVersion\<close>, the fields of \<^verbatim>\<open>OutgoingVersionMessage\<close>. The envelope that
  \<^verbatim>\<open>sendVersion\<close> builds has the first four only.
\<close>

theorem version_envelope_fields:
  "sent (socket (objs (step example_env (Connection open_socket) new_Clients) 0)) =
     [JObj [(''type'', JStr ''version''), (''driverVersion'', JStr ''TBD''),
            (''serverVersion'', JStr ''1.0.0''), (''homeId'', JNum 3530)]] \<and>
   ''minSchemaVersion'' \<notin> fst ` set (envelope_fields (hd (sent (socket (objs
       (step example_env (Connection open_socket) new_Clients) 0))))) \<and>
   ''maxSchemaVersion'' \<notin> fst ` set (envelope_fields (hd (sent (socket (objs
       (step example_env (Connection open_socket) new_Clients) 0)))))"
  by (simp add: new_Clients_def addSocket_def Let_def sendVersion_def sendData_def
      new_Client_def ws_send_def open_socket_def example_env_def JSON_stringify_def
      List.map_filter_def)

section \<open>Shutdown\<close>

lemma Clients_disconnect_fields:
  "pingInterval (Clients_disconnect st) = None"
  "clients (Clients_disconnect st) = []"
  "intervals (Clients_disconnect st) =
     (case pingInterval st of Some t \<Rightarrow> removeAll t (intervals st) | None \<Rightarrow> intervals st)"
  "objs (Clients_disconnect st) = disconnect_each (clients st) (objs st)"
  by (simp_all add: Clients_disconnect_def Let_def split: option.splits)

lemma Clients_disconnect_twice:
  "Clients_disconnect (Clients_disconnect st) = Clients_disconnect st"
  by (simp add: Clients_disconnect_def Let_def split: option.splits)

text \<open>
  C8. In every state the registry can reach, \<^verbatim>\<open>Clients.disconnect\<close> clears the sweep
  timer (no interval timer stays active, so no sweep runs any more), closes the socket
  of every tracked session once, and empties the set; in the state it leaves, an
  upstream event is fanned out to nobody and changes nothing, and a second shutdown
  changes nothing.
\<close>

theorem Clients_disconnect_shutdown:
  assumes "st = run evs new_Clients"
  shows "pingInterval (Clients_disconnect st) = None \<and>
    intervals (Clients_disconnect st) = [] \<and>
    clients (Clients_disconnect st) = [] \<and>
    (\<forall>r\<in>set (clients st).
       objs (Clients_disconnect st) r = disconnect (objs st r) \<and>
       closes (socket (objs (Clients_disconnect st) r)) = closes (socket (objs st r)) + 1 \<and>
       \<not> isConnected (objs (Clients_disconnect st) r)) \<and>
    step e (Upstream data) (Clients_disconnect st) = Clients_disconnect st \<and>
    step e (Interval t) (Clients_disconnect st) = Clients_disconnect st \<and>
    Clients_disconnect (Clients_disconnect st) = Clients_disconnect st"
proof -
  have w: "wf st" using assms by (simp add: wf_reachable)
  then have d: "distinct (clients st)"
    and i: "intervals st = (case pingInterval st of None \<Rightarrow> [] | Some t \<Rightarrow> [t])"
    by (simp_all add: wf_def)
  have i': "intervals (Clients_disconnect st) = []"
    using i by (simp add: Clients_disconnect_fields split: option.splits)
  have o: "\<forall>r\<in>set (clients st).
       objs (Clients_disconnect st) r = disconnect (objs st r) \<and>
       closes (socket (objs (Clients_disconnect st) r)) = closes (socket (objs st r)) + 1 \<and>
       \<not> isConnected (objs (Clients_disconnect st) r)"
    using d by (simp add: Clients_disconnect_fields disconnect_each_distinct)
      (simp add: disconnect_def ws_close_def)
  have u: "step e (Upstream data) (Clients_disconnect st) = Clients_disconnect st"
    by (simp add: fanOut_def Clients_disconnect_fields)
  have t: "step e (Interval t) (Clients_disconnect st) = Clients_disconnect st"
    by (simp add: i')
  show ?thesis
    using i' o u t Clients_disconnect_fields(1,2) [of st] Clients_disconnect_twice [of st]
    by blast
qed

text \<open>The shutdown of a registry that tracks one listening session.\<close>

theorem Clients_disconnect_shutdown_witness:
  "clients (run listening_session new_Clients) = [0] \<and>
   intervals (run listening_session new_Clients) = [0] \<and>
   intervals (Clients_disconnect (run listening_session new_Clients)) = [] \<and>
   clients (Clients_disconnect (run listening_session new_Clients)) = [] \<and>
   objs (Clients_disconnect (run listening_session new_Clients)) 0 =
     disconnect (objs (run listening_session new_Clients) 0) \<and>
   Clients_disconnect (Clients_disconnect (run listening_session new_Clients)) =
     Clients_disconnect (run listening_session new_Clients)"
proof -
  have i: "intervals (run listening_session new_Clients) = [0]"
    by (simp add: listening_session_def new_Clients_def addSocket_def Let_def)
  note th = Clients_disconnect_shutdown [OF refl, of listening_session]
  have "\<forall>r\<in>set (clients (run listening_session new_Clients)).
      objs (Clients_disconnect (run listening_session new_Clients)) r =
        disconnect (objs (run listening_session new_Clients) r)"
    using th by blast
  then have "objs (Clients_disconnect (run listening_session new_Clients)) 0 =
      disconnect (objs (run listening_session new_Clients) 0)"
    by (simp add: listening_session_state)
  then show ?thesis
    using th i by (simp add: listening_session_state)
qed

section \<open>The debounced cleanup\<close>

lemma step_Close_keeps:
  "clients (step e (Close r) st) = clients st"
  "nextRef (step e (Close r) st) = nextRef st"
  "cleanupScheduled st \<Longrightarrow> cleanupScheduled (step e (Close r) st)"
  "r < nextRef st \<Longrightarrow> cleanupScheduled (step e (Close r) st)"
  "r < nextRef st \<Longrightarrow> readyState (socket (objs (step e (Close r) st) r)) = CLOSED"
  "readyState (socket (objs st x)) = CLOSED \<Longrightarrow>
     readyState (socket (objs (step e (Close r) st) x)) = CLOSED"
  by (simp_all add: scheduleClientCleanup_def)

lemma run_Close_keeps:
  "clients (run (map (\<lambda>r. (e, Close r)) rs) st) = clients st \<and>
   nextRef (run (map (\<lambda>r. (e, Close r)) rs) st) = nextRef st"
  by (induction rs arbitrary: st) (simp_all add: step_Close_keeps del: step.simps)

lemma run_Close_stays_scheduled:
  "cleanupScheduled st \<Longrightarrow> cleanupScheduled (run (map (\<lambda>r. (e, Close r)) rs) st)"
  by (induction rs arbitrary: st) (simp_all add: step_Close_keeps del: step.simps)

lemma run_Close_scheduled:
  "rs \<noteq> [] \<Longrightarrow> \<forall>r\<in>set rs. r < nextRef st \<Longrightarrow>
   cleanupScheduled (run (map (\<lambda>r. (e, Close r)) rs) st)"
  by (cases rs) (simp_all add: step_Close_keeps run_Close_stays_scheduled del: step.simps)

lemma run_Close_stays_closed:
  "readyState (socket (objs st x)) = CLOSED \<Longrightarrow>
   readyState (socket (objs (run (map (\<lambda>r. (e, Close r)) rs) st) x)) = CLOSED"
  by (induction rs arbitrary: st) (simp_all add: step_Close_keeps del: step.simps)

lemma run_Close_closed:
  "\<forall>r\<in>set rs. r < nextRef st \<Longrightarrow> x \<in> set rs \<Longrightarrow>
   readyState (socket (objs (run (map (\<lambda>r. (e, Close r)) rs) st) x)) = CLOSED"
proof (induction rs arbitrary: st)
  case Nil
  then show ?case by simp
next
  case (Cons r rs)
  show ?case
  proof (cases "x = r")
    case True
    with Cons.prems have "readyState (socket (objs (step e (Close r) st) x)) = CLOSED"
      by (simp add: step_Close_keeps del: step.simps)
    then show ?thesis
      by (simp add: run_Close_stays_closed del: step.simps)
  next
    case False
    with Cons.prems have "x \<in> set rs" and "\<forall>r'\<in>set rs. r' < nextRef (step e (Close r) st)"
      by (simp_all add: step_Close_keeps del: step.simps)
    from Cons.IH [OF this(2,1)] show ?thesis by simp
  qed
qed

text \<open>
  C9. In every state the registry can reach, at most one cleanup callback is queued,
  and one is queued exactly when \<open>cleanupScheduled\<close> is set. Scheduling while the flag is
  set changes nothing, and the cleanup pass clears the flag. After any burst of close
  notifications exactly one pass is queued; when it runs, nothing is queued any more,
  every session whose close was notified has left the set, and every session that
  stays is connected.
\<close>

theorem cleanup_debounced:
  assumes "st = run evs new_Clients"
    and "rs \<noteq> []" and "\<forall>r\<in>set rs. r < nextRef st"
    and "st1 = run (map (\<lambda>r. (e, Close r)) rs) st"
    and "st2 = step e Timeout st1"
  shows "timeouts st \<le> 1 \<and>
    timeouts st = (if cleanupScheduled st then 1 else 0) \<and>
    (cleanupScheduled x \<longrightarrow> scheduleClientCleanup x = x) \<and>
    \<not> cleanupScheduled (cleanupClients x) \<and>
    cleanupScheduled st1 \<and> timeouts st1 = 1 \<and>
    \<not> cleanupScheduled st2 \<and> timeouts st2 = 0 \<and>
    clients st2 = filter (\<lambda>cl. isConnected (objs st1 cl)) (clients st) \<and>
    (\<forall>r\<in>set (clients st2). isConnected (objs st2 r)) \<and>
    (\<forall>r\<in>set rs. r \<notin> set (clients st2))"
proof -
  have w: "wf st" using assms(1) by (simp add: wf_reachable)
  then have a: "timeouts st = (if cleanupScheduled st then 1 else 0)"
    by (simp add: wf_def)
  have w1: "wf st1" using w assms(4) by (simp add: wf_run)
  have s1: "cleanupScheduled st1"
    unfolding assms(4) using assms(2,3) by (rule run_Close_scheduled)
  with w1 have t1: "timeouts st1 = 1"
    by (simp add: wf_def)
  have c1: "clients st1 = clients st"
    unfolding assms(4) by (simp add: run_Close_keeps)
  have st2: "st2 = cleanupClients (st1\<lparr>timeouts := 0\<rparr>)"
    using t1 assms(5) by simp
  have closed: "\<forall>r\<in>set rs. \<not> isConnected (objs st1 r)"
    unfolding assms(4) using run_Close_closed [OF assms(3)]
    by (simp add: isConnected_def)
  have b: "(cleanupScheduled x \<longrightarrow> scheduleClientCleanup x = x) \<and>
      \<not> cleanupScheduled (cleanupClients x)"
    by (simp add: scheduleClientCleanup_def cleanupClients_def)
  have c: "clients st2 = filter (\<lambda>cl. isConnected (objs st1 cl)) (clients st)"
    unfolding st2 by (simp add: cleanupClients_def c1)
  have d: "\<forall>r\<in>set (clients st2). isConnected (objs st2 r)"
    unfolding st2 by (simp add: cleanupClients_def)
  have f: "\<forall>r\<in>set rs. r \<notin> set (clients st2)"
    using closed by (simp add: c)
  have g: "\<not> cleanupScheduled st2 \<and> timeouts st2 = 0"
    unfolding st2 by (simp add: cleanupClients_def)
  show ?thesis
    using a b s1 t1 c d f g by simp
qed

text \<open>Two sessions that close in one burst are removed by one pass.\<close>

theorem cleanup_debounced_witness:
  "nextRef (run two_sessions new_Clients) = 2 \<and>
   clients (run two_sessions new_Clients) = [0, 1] \<and>
   timeouts (run (map (\<lambda>r. (example_env, Close r)) [0, 1])
     (run two_sessions new_Clients)) = 1 \<and>
   timeouts (step example_env Timeout (run (map (\<lambda>r. (example_env, Close r)) [0, 1])
     (run two_sessions new_Clients))) = 0 \<and>
   0 \<notin> set (clients (step example_env Timeout
     (run (map (\<lambda>r. (example_env, Close r)) [0, 1]) (run two_sessions new_Clients)))) \<and>
   1 \<notin> set (clients (step example_env Timeout
     (run (map (\<lambda>r. (example_env, Close r)) [0, 1]) (run two_sessions new_Clients))))"
proof -
  have n: "nextRef (run two_sessions new_Clients) = 2"
    and c: "clients (run two_sessions new_Clients) = [0, 1]"
    by (simp_all add: two_sessions_def new_Clients_def addSocket_def Let_def)
  have ne: "[0, 1 :: nat] \<noteq> []"
    by simp
  have b: "\<forall>r\<in>set [0, 1]. r < nextRef (run two_sessions new_Clients)"
    by (simp add: n)
  note th = cleanup_debounced [where e = example_env and rs = "[0, 1]" and evs = two_sessions,
      OF refl ne b refl refl]
  have "\<forall>r\<in>set [0, 1 :: nat]. r \<notin> set (clients (step example_env Timeout
      (run (map (\<lambda>r. (example_env, Close r)) [0, 1]) (run two_sessions new_Clients))))"
    using th by blast
  then have "0 \<notin> set (clients (step example_env Timeout
      (run (map (\<lambda>r. (example_env, Close r)) [0, 1]) (run two_sessions new_Clients))))"
    and "1 \<notin> set (clients (step example_env Timeout
      (run (map (\<lambda>r. (example_env, Close r)) [0, 1]) (run two_sessions new_Clients))))"
    by simp_all
  then show ?thesis
    using th n c by blast
qed

end
